theory Spec2Isabelle
  imports Main
begin

section \<open>Go error values\<close>

text \<open>
  A Go \<open>error\<close> is an interface value. The concrete kinds this code builds are
  \<^item> \<open>ErrSkip reason\<close>: the value returned by \<open>pipe.Skip(reason)\<close>;
  \<^item> \<open>ErrorString msg\<close>: \<open>errors.New(msg)\<close>, \<open>fmt.Errorf\<close> without \<open>%w\<close>, and any
    error of a library whose only observable is its message;
  \<^item> \<open>WrapError prefix err\<close>: \<open>fmt.Errorf(prefix + "%w", err)\<close>.
  A \<open>nil\<close> error is \<open>None\<close> of \<open>error option\<close>.
\<close>

datatype error =
    ErrSkip string
  | ErrorString string
  | WrapError string error

text \<open>
  Modelled from the spec: the \<open>Error()\<close> method of the skip outcome of the missing
  \<open>pipe.go\<close>, the first equation. "\<open>Skip(reason)\<close> constructs a Skip outcome
  carrying a human-readable reason", and \<open>TestSkipPipe\<close> compares the message of
  \<open>Skip(reason)\<close> with \<open>reason\<close>. The other two equations are the messages of
  \<open>errors.New\<close> and of \<open>fmt.Errorf\<close> with \<open>%w\<close> in the Go library.
\<close>

fun Error :: "error \<Rightarrow> string" where
  "Error (ErrSkip reason) = reason"
| "Error (ErrorString s) = s"
| "Error (WrapError prefix err) = prefix @ Error err"

text \<open>\<open>strings.Join(elems, sep)\<close>.\<close>

fun strings_Join :: "string list \<Rightarrow> string \<Rightarrow> string" where
  "strings_Join [] sep = []"
| "strings_Join [x] sep = x"
| "strings_Join (x # y # ys) sep = x @ sep @ strings_Join (y # ys) sep"


section \<open>Package pipe: the skip signal and its aggregator\<close>

text \<open>
  \<open>internal/pipe/pipe.go\<close> is not among the sources at hand; only its test
  \<open>internal/pipe/pipe_test.go\<close> is. Its operations are therefore modelled from the
  specification (section 4.4) and from what the test asserts.
\<close>

text \<open>
  Modelled from the spec: \<open>Skip\<close> of the missing \<open>pipe.go\<close>. "\<open>Skip(reason)\<close> constructs
  a Skip outcome carrying a human-readable reason."
\<close>

definition Skip :: "string \<Rightarrow> error" where
  "Skip reason = ErrSkip reason"

text \<open>
  Modelled from the spec: \<open>IsSkip\<close> of the missing \<open>pipe.go\<close>. "\<open>IsSkip(outcome)\<close> tests
  the tag."
\<close>

fun IsSkip :: "error \<Rightarrow> bool" where
  "IsSkip (ErrSkip reason) = True"
| "IsSkip (ErrorString s) = False"
| "IsSkip (WrapError prefix err) = False"

text \<open>
  Modelled from the spec: the type \<open>SkipMemento\<close> of the missing \<open>pipe.go\<close>, the
  aggregator's "running collection" of reasons, in the order they were first seen.
\<close>

record SkipMemento =
  skips :: "string list"

text \<open>The zero value \<open>SkipMemento{}\<close> the tests start from.\<close>

definition SkipMemento_zero :: SkipMemento where
  "SkipMemento_zero = \<lparr>skips = []\<rparr>"

text \<open>
  Modelled from the spec: \<open>Remember\<close> of the missing \<open>pipe.go\<close>. "Folds one outcome into
  a running collection: Success is ignored, Skip/Failure reasons are appended unless an
  identical reason string is already present (deduplication by exact string match, not
  error identity)." Success is the \<open>nil\<close> error, \<open>None\<close>.
\<close>

fun Remember :: "SkipMemento \<Rightarrow> error option \<Rightarrow> SkipMemento" where
  "Remember m None = m"
| "Remember m (Some err) =
     (if Error err \<in> set (skips m) then m
      else m\<lparr>skips := skips m @ [Error err]\<rparr>)"

text \<open>
  Modelled from the spec: \<open>Evaluate\<close> of the missing \<open>pipe.go\<close>. "Returns nil when nothing
  was remembered; otherwise a single error whose description is every remembered reason
  joined with a fixed separator (", "), preserving first-seen order." The spec fixes
  when the result is nil and what the description of the error is, and nothing else:
  of which kind the error is it does not say. The model has to return some error
  value; it returns the one \<open>Skip\<close> builds, which agrees with the one scenario of
  \<open>TestSkipMemento\<close>. That choice is the model's and not the spec's: the properties
  proved of \<open>Evaluate\<close> below are about the nil case and about the message, and
  nothing is concluded from the kind of the error returned.
\<close>

definition Evaluate :: "SkipMemento \<Rightarrow> error option" where
  "Evaluate m =
     (if length (skips m) = 0 then None
      else Some (Skip (strings_Join (skips m) '', '')))"

text \<open>Remembering a sequence of outcomes, one call of \<open>Remember\<close> after the other.\<close>

definition remember_all :: "SkipMemento \<Rightarrow> error option list \<Rightarrow> SkipMemento" where
  "remember_all m outcomes = foldl Remember m outcomes"

text \<open>
  The reasons of a sequence of outcomes in first-seen order, each once: the reference
  the aggregator is compared with.
\<close>

fun first_seen :: "string list \<Rightarrow> string list \<Rightarrow> string list" where
  "first_seen seen [] = seen"
| "first_seen seen (r # rs) =
     (if r \<in> set seen then first_seen seen rs else first_seen (seen @ [r]) rs)"

section \<open>Package webhook\<close>

subsection \<open>Configuration, context and constants\<close>

text \<open>
  The fields of \<open>config.Webhook\<close> that \<open>webhook.go\<close> reads and writes, reached in the
  source as \<open>ctx.Config.Announce.Webhook\<close>. \<open>Headers\<close> is a Go map; the list holds its
  entries in the order the \<open>range\<close> loop visits them, which Go leaves unspecified.
  Status codes are Go \<open>int\<close>s; they are only compared, never computed with.
\<close>

record config_Webhook =
  Enabled :: string
  SkipTLSVerify :: bool
  MessageTemplate :: string
  EndpointURL :: string
  Headers :: "(string \<times> string) list"
  ContentType :: string
  ExpectedStatusCodes :: "int list"

record config_Announce =
  Webhook :: config_Webhook

record config_Project =
  Announce :: config_Announce

record Context =
  Config :: config_Project

definition defaultMessageTemplate :: string where
  \<open>defaultMessageTemplate =
     ''{ "message": "{{ .ProjectName }} {{ .Tag }} is out! Check it out at {{ .ReleaseURL }}"}''\<close>

definition contentTypeHeaderKey :: string where
  "contentTypeHeaderKey = ''Content-Type''"

definition userAgentHeaderKey :: string where
  "userAgentHeaderKey = ''User-Agent''"

definition userAgentHeaderValue :: string where
  "userAgentHeaderValue = ''goreleaser''"

definition authorizationHeaderKey :: string where
  "authorizationHeaderKey = ''Authorization''"

definition defaultContentType :: string where
  "defaultContentType = ''application/json; charset=utf-8''"

text \<open>The status constants of \<open>net/http\<close> the source names.\<close>

definition http_StatusOK :: int where
  "http_StatusOK = 200"

definition http_StatusCreated :: int where
  "http_StatusCreated = 201"

definition http_StatusAccepted :: int where
  "http_StatusAccepted = 202"

definition http_StatusNoContent :: int where
  "http_StatusNoContent = 204"

definition defaultExpectedStatusCodes :: "int list" where
  "defaultExpectedStatusCodes =
     [http_StatusOK, http_StatusCreated, http_StatusAccepted, http_StatusNoContent]"

record envConfig =
  BasicAuthHeader :: string
  BearerTokenHeader :: string

subsection \<open>What lies outside the file\<close>

text \<open>
  An HTTP request as \<open>Announce\<close> builds it. \<open>Header\<close> is Go's \<open>http.Header\<close>, kept as
  the list of (canonical key, value) pairs in the order they were added. Of a response
  the code reads \<open>StatusCode\<close> and \<open>Status\<close>; the body is only drained and logged.
\<close>

record Request =
  Method :: string
  URL :: string
  Body :: string
  Header :: "(string \<times> string) list"

record Response =
  Status :: string
  StatusCode :: int

text \<open>
  The collaborators \<open>webhook.go\<close> calls and does not define, taken as parameters:
  \<^item> \<open>env_ParseAs\<close>: \<open>env.ParseAs[envConfig]()\<close>, the two environment values or an error;
  \<^item> \<open>tmpl_Apply\<close>, \<open>tmpl_Bool\<close>: \<open>tmpl.New(ctx).Apply(s)\<close> and \<open>tmpl.New(ctx).Bool(s)\<close> of
    the template resolver (\<open>internal/tmpl\<close>); \<open>Bool\<close> returns a value and an error, as in Go;
  \<^item> \<open>url_ParseRequestURI\<close>: the error of \<open>url.ParseRequestURI(s)\<close> (its value is dropped);
  \<^item> \<open>url_Parse\<close>: \<open>url.Parse(s)\<close>, the parsed URL given by its \<open>String()\<close>;
  \<^item> \<open>http_NewRequest_error\<close>: the error of \<open>http.NewRequestWithContext\<close> for a method
    and a URL;
  \<^item> \<open>CanonicalHeaderKey\<close>: the key canonicalisation \<open>http.Header.Add\<close> applies;
  \<^item> \<open>client_Do\<close>: \<open>client.Do(req)\<close> for a client whose transport has
    \<open>InsecureSkipVerify\<close> set to the first argument.
  Log lines are not modelled.
\<close>

record World =
  env_ParseAs :: "error + envConfig"
  tmpl_Apply :: "Context \<Rightarrow> string \<Rightarrow> error + string"
  tmpl_Bool :: "Context \<Rightarrow> string \<Rightarrow> bool \<times> error option"
  url_ParseRequestURI :: "string \<Rightarrow> error option"
  url_Parse :: "string \<Rightarrow> error + string"
  http_NewRequest_error :: "string \<Rightarrow> string \<Rightarrow> error option"
  CanonicalHeaderKey :: "string \<Rightarrow> string"
  client_Do :: "bool \<Rightarrow> Request \<Rightarrow> error + Response"

definition http_MethodPost :: string where
  "http_MethodPost = ''POST''"

text \<open>
  \<open>http.NewRequestWithContext(ctx, method, url, body)\<close>: an error, or a request with the
  method, URL and body given and an empty header.
\<close>

definition http_NewRequestWithContext ::
    "World \<Rightarrow> string \<Rightarrow> string \<Rightarrow> string \<Rightarrow> error + Request" where
  "http_NewRequestWithContext w method url body =
     (case http_NewRequest_error w method url of
        Some err \<Rightarrow> Inl err
      | None \<Rightarrow> Inr \<lparr>Method = method, URL = url, Body = body, Header = []\<rparr>)"

text \<open>\<open>req.Header.Add(key, value)\<close>: appends the value under the canonical key.\<close>

definition Header_Add :: "World \<Rightarrow> Request \<Rightarrow> string \<Rightarrow> string \<Rightarrow> Request" where
  "Header_Add w req key val =
     req\<lparr>Header := Header req @ [(CanonicalHeaderKey w key, val)]\<rparr>"

text \<open>\<open>req.Header.Values(key)\<close>: the values added under the canonical key, in order.\<close>

definition Header_Values :: "World \<Rightarrow> Request \<Rightarrow> string \<Rightarrow> string list" where
  "Header_Values w req key =
     map snd (filter (\<lambda>kv. fst kv = CanonicalHeaderKey w key) (Header req))"

text \<open>\<open>slices.Contains(s, v)\<close>.\<close>

definition slices_Contains :: "'a list \<Rightarrow> 'a \<Rightarrow> bool" where
  "slices_Contains s v = (v \<in> set s)"

subsection \<open>The pipe\<close>

definition Pipe_String :: string where
  "Pipe_String = ''webhook''"

text \<open>\<open>func (Pipe) Skip(ctx) (bool, error)\<close>, lines 39-42.\<close>

definition Pipe_Skip :: "World \<Rightarrow> Context \<Rightarrow> bool \<times> error option" where
  "Pipe_Skip w ctx =
     (case tmpl_Bool w ctx (Enabled (Webhook (Announce (Config ctx)))) of
        (enable, err) \<Rightarrow> (\<not> enable, err))"

text \<open>
  \<open>func (p Pipe) Default(ctx) error\<close>, lines 50-61. The source updates the context in
  place; the model returns the updated context beside the error.
\<close>

definition update_Webhook :: "(config_Webhook \<Rightarrow> config_Webhook) \<Rightarrow> Context \<Rightarrow> Context" where
  "update_Webhook f ctx =
     ctx\<lparr>Config := (Config ctx)\<lparr>Announce := (Announce (Config ctx))
       \<lparr>Webhook := f (Webhook (Announce (Config ctx)))\<rparr>\<rparr>\<rparr>"

definition Pipe_Default :: "Context \<Rightarrow> Context \<times> error option" where
  "Pipe_Default ctx =
     (let ctx1 = (if MessageTemplate (Webhook (Announce (Config ctx))) = ''''
                  then update_Webhook (\<lambda>wh. wh\<lparr>MessageTemplate := defaultMessageTemplate\<rparr>) ctx
                  else ctx);
          ctx2 = (if ContentType (Webhook (Announce (Config ctx1))) = ''''
                  then update_Webhook (\<lambda>wh. wh\<lparr>ContentType := defaultContentType\<rparr>) ctx1
                  else ctx1);
          ctx3 = (if length (ExpectedStatusCodes (Webhook (Announce (Config ctx2)))) = 0
                  then update_Webhook
                         (\<lambda>wh. wh\<lparr>ExpectedStatusCodes := defaultExpectedStatusCodes\<rparr>) ctx2
                  else ctx2)
      in (ctx3, None))"

text \<open>
  Lines 109-115 of \<open>Announce\<close>: the Authorization header from the environment values.
\<close>

definition add_auth_header :: "World \<Rightarrow> envConfig \<Rightarrow> Request \<Rightarrow> Request" where
  "add_auth_header w cfg req =
     (if BasicAuthHeader cfg \<noteq> '''' then
        Header_Add w req authorizationHeaderKey (BasicAuthHeader cfg)
      else if BearerTokenHeader cfg \<noteq> '''' then
        Header_Add w req authorizationHeaderKey (BearerTokenHeader cfg)
      else req)"

text \<open>Lines 117-120 of \<open>Announce\<close>: the loop over the configured headers.\<close>

definition add_custom_headers :: "World \<Rightarrow> (string \<times> string) list \<Rightarrow> Request \<Rightarrow> Request" where
  "add_custom_headers w headers req =
     foldl (\<lambda>r kv. Header_Add w r (fst kv) (snd kv)) req headers"

text \<open>
  \<open>func (p Pipe) Announce(ctx) error\<close>, lines 64-136. The result is the request handed to
  \<open>client.Do\<close> (\<open>None\<close> when the function returns before line 121) and the error returned.
\<close>

definition Pipe_Announce :: "World \<Rightarrow> Context \<Rightarrow> Request option \<times> error option" where
  "Pipe_Announce w ctx =
     (let webhook = Webhook (Announce (Config ctx)) in
      case env_ParseAs w of
        Inl err \<Rightarrow> (None, Some (WrapError ''webhook: '' err))
      | Inr cfg \<Rightarrow>
      (case tmpl_Apply w ctx (EndpointURL webhook) of
        Inl err \<Rightarrow> (None, Some (WrapError ''webhook: '' err))
      | Inr endpointURLConfig \<Rightarrow>
      if length endpointURLConfig = 0 then
        (None, Some (ErrorString ''webhook: no endpoint url''))
      else
      (case url_ParseRequestURI w endpointURLConfig of
        Some err \<Rightarrow> (None, Some (WrapError ''webhook: '' err))
      | None \<Rightarrow>
      (case url_Parse w endpointURLConfig of
        Inl err \<Rightarrow> (None, Some (WrapError ''webhook: '' err))
      | Inr endpointURL \<Rightarrow>
      (case tmpl_Apply w ctx (MessageTemplate webhook) of
        Inl err \<Rightarrow> (None, Some (WrapError ''webhook: '' err))
      | Inr msg \<Rightarrow>
      (case http_NewRequestWithContext w http_MethodPost endpointURL msg of
        Inl err \<Rightarrow> (None, Some (WrapError ''webhook: '' err))
      | Inr req0 \<Rightarrow>
        (let req1 = Header_Add w req0 contentTypeHeaderKey (ContentType webhook);
             req2 = Header_Add w req1 userAgentHeaderKey userAgentHeaderValue;
             req3 = add_auth_header w cfg req2;
             req = add_custom_headers w (Headers webhook) req3
         in case client_Do w (SkipTLSVerify webhook) req of
              Inl err \<Rightarrow> (Some req, Some (WrapError ''webhook: '' err))
            | Inr resp \<Rightarrow>
                if \<not> slices_Contains (ExpectedStatusCodes webhook) (StatusCode resp) then
                  (Some req, Some (ErrorString (''request failed with status '' @ Status resp)))
                else (Some req, None))))))))"

subsection \<open>Specification predicates and concrete inputs\<close>

text \<open>
  An error value no part of which comes from \<open>Skip\<close>: a plain error, or a plain error
  wrapped any number of times.
\<close>

fun built_without_Skip :: "error \<Rightarrow> bool" where
  "built_without_Skip (ErrSkip reason) = False"
| "built_without_Skip (ErrorString s) = True"
| "built_without_Skip (WrapError prefix err) = built_without_Skip err"

text \<open>The reasons a sequence of outcomes carries: one per outcome that is not Success.\<close>

fun reasons_of :: "error option list \<Rightarrow> string list" where
  "reasons_of [] = []"
| "reasons_of (None # outcomes) = reasons_of outcomes"
| "reasons_of (Some err # outcomes) = Error err # reasons_of outcomes"

text \<open>
  The Authorization values lines 109-115 take from the environment: the basic-auth
  value when it is set, else the bearer token when it is set, else none.
\<close>

definition env_auth_values :: "envConfig \<Rightarrow> string list" where
  "env_auth_values cfg =
     (if BasicAuthHeader cfg \<noteq> '''' then [BasicAuthHeader cfg]
      else if BearerTokenHeader cfg \<noteq> '''' then [BearerTokenHeader cfg]
      else [])"

text \<open>
  The values of the configured headers whose key canonicalises to the key of
  Authorization, in the order of the loop.
\<close>

definition custom_auth_values :: "World \<Rightarrow> (string \<times> string) list \<Rightarrow> string list" where
  "custom_auth_values w headers =
     map snd (filter (\<lambda>kv. CanonicalHeaderKey w (fst kv) =
                             CanonicalHeaderKey w authorizationHeaderKey) headers)"

text \<open>
  A world in which every collaborator succeeds: both environment values are set,
  templates resolve to themselves, every URL parses, and the endpoint answers
  \<open>200 OK\<close>. The header keys used below are already in canonical form, so the
  canonicalisation leaves them as they are.
\<close>

definition example_World :: World where
  "example_World =
     \<lparr>env_ParseAs = Inr \<lparr>BasicAuthHeader = ''Basic dXNlcjpwYXNz'',
                          BearerTokenHeader = ''Bearer t0k3n''\<rparr>,
      tmpl_Apply = (\<lambda>ctx s. Inr s),
      tmpl_Bool = (\<lambda>ctx s. (s = ''true'', None)),
      url_ParseRequestURI = (\<lambda>s. None),
      url_Parse = (\<lambda>s. Inr s),
      http_NewRequest_error = (\<lambda>method url. None),
      CanonicalHeaderKey = (\<lambda>key. key),
      client_Do = (\<lambda>insecure req. Inr \<lparr>Status = ''200 OK'', StatusCode = 200\<rparr>)\<rparr>"

text \<open>The same world with an endpoint that answers \<open>500\<close>.\<close>

definition failing_endpoint_World :: World where
  "failing_endpoint_World =
     example_World\<lparr>client_Do :=
       (\<lambda>insecure req. Inr \<lparr>Status = ''500 Internal Server Error'', StatusCode = 500\<rparr>)\<rparr>"

text \<open>The same world with a template resolver that fails on the \<open>Enabled\<close> expression.\<close>

definition failing_template_World :: World where
  "failing_template_World =
     example_World\<lparr>tmpl_Bool :=
       (\<lambda>ctx s. (False, Some (ErrorString ''template: failed to resolve'')))\<rparr>"

text \<open>
  A configuration that sets the endpoint, the content type and one custom header and
  leaves the message template and the expected status codes unset.
\<close>

definition example_Webhook :: config_Webhook where
  "example_Webhook =
     \<lparr>Enabled = ''true'',
      SkipTLSVerify = False,
      MessageTemplate = '''',
      EndpointURL = ''https://example.com/hook'',
      Headers = [(''X-Project'', ''demo'')],
      ContentType = ''text/plain'',
      ExpectedStatusCodes = []\<rparr>"

definition context_of :: "config_Webhook \<Rightarrow> Context" where
  "context_of wh = \<lparr>Config = \<lparr>Announce = \<lparr>Webhook = wh\<rparr>\<rparr>\<rparr>"

definition example_Context :: Context where
  "example_Context = context_of example_Webhook"

text \<open>The same configuration with an Authorization header among the custom headers.\<close>

definition custom_auth_Context :: Context where
  "custom_auth_Context =
     context_of (example_Webhook\<lparr>MessageTemplate := ''released'',
                                 Headers := [(''Authorization'', ''Bearer other'')],
                                 ExpectedStatusCodes := [200]\<rparr>)"

text \<open>The request \<open>Announce\<close> sends for it in \<open>example_World\<close>.\<close>

definition custom_auth_Request :: Request where
  "custom_auth_Request =
     \<lparr>Method = ''POST'',
      URL = ''https://example.com/hook'',
      Body = ''released'',
      Header = [(''Content-Type'', ''text/plain''),
                (''User-Agent'', ''goreleaser''),
                (''Authorization'', ''Basic dXNlcjpwYXNz''),
                (''Authorization'', ''Bearer other'')]\<rparr>"

section \<open>Properties of the skip signal and the aggregator\<close>

lemma skips_remember_all:
  "skips (remember_all m outcomes) = first_seen (skips m) (reasons_of outcomes)"
  unfolding remember_all_def
proof (induction outcomes arbitrary: m)
  case Nil
  show ?case by simp
next
  case (Cons out outcomes)
  show ?case
  proof (cases out)
    case None
    then show ?thesis using Cons.IH [of m] by simp
  next
    case (Some err)
    then show ?thesis using Cons.IH [of "Remember m (Some err)"] by simp
  qed
qed

lemma first_seen_prefix: "\<exists>added. first_seen seen rs = seen @ added"
proof (induction rs arbitrary: seen)
  case Nil
  show ?case by simp
next
  case (Cons r rs)
  show ?case
  proof (cases "r \<in> set seen")
    case True
    then show ?thesis using Cons.IH [of seen] by simp
  next
    case False
    obtain added where "first_seen (seen @ [r]) rs = (seen @ [r]) @ added"
      using Cons.IH [of "seen @ [r]"] by blast
    with False show ?thesis by simp
  qed
qed

lemma set_first_seen: "set (first_seen seen rs) = set seen \<union> set rs"
  by (induction rs arbitrary: seen) auto

lemma distinct_first_seen: "distinct seen \<Longrightarrow> distinct (first_seen seen rs)"
  by (induction rs arbitrary: seen) auto

text \<open>
  Whatever is remembered, the aggregator holds every reason exactly once, and the
  message of what \<open>Evaluate\<close> returns is the join of the reasons in first-seen order.
\<close>

lemma Evaluate_remember_all:
  "map_option Error (Evaluate (remember_all SkipMemento_zero outcomes)) =
     (if reasons_of outcomes = [] then None
      else Some (strings_Join (first_seen [] (reasons_of outcomes)) '', ''))"
proof -
  have s: "skips (remember_all SkipMemento_zero outcomes) = first_seen [] (reasons_of outcomes)"
    by (simp add: skips_remember_all SkipMemento_zero_def)
  have "(first_seen [] (reasons_of outcomes) = []) = (reasons_of outcomes = [])"
    using set_first_seen [of "[]" "reasons_of outcomes"] by (metis set_empty sup_bot.left_neutral)
  with s show ?thesis by (simp add: Evaluate_def Skip_def)
qed

text \<open>
  Claim C1. Remembering the skip outcomes with the reasons "foo", "bar", "dupe", "dupe",
  in that order, and then evaluating yields an error whose message is exactly
  "foo, bar, dupe": the reasons joined with ", " in first-seen order, the duplicate
  collapsed.
\<close>

theorem SkipMemento_foo_bar_dupe:
  "map_option Error
     (Evaluate
        (Remember
           (Remember
              (Remember
                 (Remember SkipMemento_zero (Some (Skip ''foo'')))
                 (Some (Skip ''bar'')))
              (Some (Skip ''dupe'')))
           (Some (Skip ''dupe'')))) = Some ''foo, bar, dupe''"
  by (simp add: SkipMemento_zero_def Skip_def Evaluate_def)

text \<open>
  Claim C2. \<open>IsSkip\<close> is true of every outcome the \<open>Skip\<close> constructor builds, and false of
  every error built without it: of a plain error, also when it is wrapped.
\<close>

theorem IsSkip_Skip_and_plain:
  "IsSkip (Skip reason) \<and> (built_without_Skip err \<longrightarrow> \<not> IsSkip err)"
  by (cases err) (simp_all add: Skip_def)

theorem IsSkip_Skip_and_plain_witness:
  "IsSkip (Skip ''whatever'') \<and> built_without_Skip (ErrorString ''nope'')
     \<and> \<not> IsSkip (ErrorString ''nope'')"
  using IsSkip_Skip_and_plain [of "''whatever''" "ErrorString ''nope''"] by simp

text \<open>
  Claim C3. An aggregator on which nothing was remembered returns no error from
  \<open>Evaluate\<close>; so does one that was only given successes.
\<close>

theorem Evaluate_nothing_remembered:
  "Evaluate SkipMemento_zero = None
     \<and> Evaluate (remember_all SkipMemento_zero (replicate n None)) = None"
proof -
  have "reasons_of (replicate n None) = []"
    by (induction n) simp_all
  then have "map_option Error (Evaluate (remember_all SkipMemento_zero (replicate n None))) = None"
    by (simp add: Evaluate_remember_all)
  then have "Evaluate (remember_all SkipMemento_zero (replicate n None)) = None"
    by simp
  then show ?thesis by (simp add: Evaluate_def SkipMemento_zero_def)
qed

text \<open>
  Claim C8. For every reason string, the message of the error \<open>Skip\<close> builds is exactly
  that reason: nothing is added before or after it.
\<close>

theorem Error_Skip_is_reason: "Error (Skip reason) = reason"
  by (simp add: Skip_def)

section \<open>Properties of the webhook pipe\<close>

text \<open>
  Claim C4. For every context, \<open>Skip\<close> returns the negation of the resolved \<open>Enabled\<close>
  expression, and it returns the resolver's error with it: a failed resolution is
  handed to the caller as an error.
\<close>

theorem Pipe_Skip_negates_Enabled:
  "tmpl_Bool w ctx (Enabled (Webhook (Announce (Config ctx)))) = (enable, err)
     \<Longrightarrow> Pipe_Skip w ctx = (\<not> enable, err)"
  by (simp add: Pipe_Skip_def)

theorem Pipe_Skip_negates_Enabled_witness:
  "Pipe_Skip example_World example_Context = (False, None)
     \<and> Pipe_Skip failing_template_World example_Context
         = (True, Some (ErrorString ''template: failed to resolve''))"
proof -
  have a: "tmpl_Bool example_World example_Context
             (Enabled (Webhook (Announce (Config example_Context)))) = (True, None)"
    by (simp add: example_World_def example_Context_def context_of_def example_Webhook_def)
  have b: "tmpl_Bool failing_template_World example_Context
             (Enabled (Webhook (Announce (Config example_Context))))
           = (False, Some (ErrorString ''template: failed to resolve''))"
    by (simp add: failing_template_World_def)
  show ?thesis
    using Pipe_Skip_negates_Enabled [OF a] Pipe_Skip_negates_Enabled [OF b] by simp
qed

text \<open>The definitions that evaluating a concrete run of the pipe unfolds.\<close>

lemmas example_defs =
  example_World_def failing_endpoint_World_def example_Context_def context_of_def
  example_Webhook_def custom_auth_Context_def custom_auth_Request_def
  Pipe_Announce_def Pipe_Default_def update_Webhook_def Let_def
  http_NewRequestWithContext_def http_MethodPost_def Header_Add_def add_auth_header_def
  add_custom_headers_def slices_Contains_def contentTypeHeaderKey_def userAgentHeaderKey_def
  userAgentHeaderValue_def authorizationHeaderKey_def defaultExpectedStatusCodes_def
  http_StatusOK_def http_StatusCreated_def http_StatusAccepted_def http_StatusNoContent_def

text \<open>
  Claim C5. For every context, \<open>Default\<close> returns no error; it sets the message
  template, the content type and the expected status codes to their defaults where
  they were unset (empty), and leaves them as they were where they were set; no other
  field of the configuration changes.
\<close>

theorem Pipe_Default_fills_unset:
  "snd (Pipe_Default ctx) = None
   \<and> MessageTemplate (Webhook (Announce (Config (fst (Pipe_Default ctx))))) =
       (if MessageTemplate (Webhook (Announce (Config ctx))) = '''' then defaultMessageTemplate
        else MessageTemplate (Webhook (Announce (Config ctx))))
   \<and> ContentType (Webhook (Announce (Config (fst (Pipe_Default ctx))))) =
       (if ContentType (Webhook (Announce (Config ctx))) = '''' then defaultContentType
        else ContentType (Webhook (Announce (Config ctx))))
   \<and> ExpectedStatusCodes (Webhook (Announce (Config (fst (Pipe_Default ctx))))) =
       (if ExpectedStatusCodes (Webhook (Announce (Config ctx))) = []
        then defaultExpectedStatusCodes
        else ExpectedStatusCodes (Webhook (Announce (Config ctx))))
   \<and> Enabled (Webhook (Announce (Config (fst (Pipe_Default ctx))))) =
       Enabled (Webhook (Announce (Config ctx)))
   \<and> SkipTLSVerify (Webhook (Announce (Config (fst (Pipe_Default ctx))))) =
       SkipTLSVerify (Webhook (Announce (Config ctx)))
   \<and> EndpointURL (Webhook (Announce (Config (fst (Pipe_Default ctx))))) =
       EndpointURL (Webhook (Announce (Config ctx)))
   \<and> Headers (Webhook (Announce (Config (fst (Pipe_Default ctx))))) =
       Headers (Webhook (Announce (Config ctx)))"
  by (simp add: Pipe_Default_def Let_def update_Webhook_def)

text \<open>Running \<open>Default\<close> a second time changes nothing.\<close>

lemma Pipe_Default_idempotent:
  "Pipe_Default (fst (Pipe_Default ctx)) = Pipe_Default ctx"
  by (simp add: Pipe_Default_def Let_def update_Webhook_def defaultMessageTemplate_def
      defaultContentType_def defaultExpectedStatusCodes_def)

text \<open>The header of the request after the two steps that add the configured headers.\<close>

lemma Header_add_custom_headers:
  "Header (add_custom_headers w headers req) =
     Header req @ map (\<lambda>kv. (CanonicalHeaderKey w (fst kv), snd kv)) headers"
  unfolding add_custom_headers_def
  by (induction headers arbitrary: req) (simp_all add: Header_Add_def)

lemma Header_add_auth_header:
  "Header (add_auth_header w cfg req) =
     Header req @
       map (\<lambda>v. (CanonicalHeaderKey w authorizationHeaderKey, v)) (env_auth_values cfg)"
  by (simp add: add_auth_header_def env_auth_values_def Header_Add_def)

text \<open>The request \<open>Announce\<close> hands to the client, when it gets that far.\<close>

lemma Pipe_Announce_request:
  assumes "Pipe_Announce w ctx = (Some req, r)"
  shows "\<exists>cfg endpointURL msg.
           env_ParseAs w = Inr cfg \<and>
           req = add_custom_headers w (Headers (Webhook (Announce (Config ctx))))
                   (add_auth_header w cfg
                      (Header_Add w
                         (Header_Add w
                            \<lparr>Method = http_MethodPost, URL = endpointURL,
                               Body = msg, Header = []\<rparr>
                            contentTypeHeaderKey
                            (ContentType (Webhook (Announce (Config ctx)))))
                         userAgentHeaderKey userAgentHeaderValue))"
  using assms
  unfolding Pipe_Announce_def Let_def http_NewRequestWithContext_def
  by (auto split: sum.splits option.splits if_splits)

text \<open>
  Claim C6. For every response \<open>Announce\<close> receives from the client, \<open>Announce\<close> returns
  an error exactly when the status code of the response is not among the configured
  expected status codes, and returns nil when it is; the default set of expected
  status codes is 200, 201, 202, 204.
\<close>

theorem Pipe_Announce_expected_status:
  assumes "Pipe_Announce w ctx = (Some req, r)"
    and "client_Do w (SkipTLSVerify (Webhook (Announce (Config ctx)))) req = Inr resp"
  shows "r = (if StatusCode resp \<in> set (ExpectedStatusCodes (Webhook (Announce (Config ctx))))
              then None
              else Some (ErrorString (''request failed with status '' @ Status resp)))
         \<and> set defaultExpectedStatusCodes = {200, 201, 202, 204}"
proof -
  have "r = (if StatusCode resp \<in> set (ExpectedStatusCodes (Webhook (Announce (Config ctx))))
             then None
             else Some (ErrorString (''request failed with status '' @ Status resp)))"
    using assms
    unfolding Pipe_Announce_def Let_def slices_Contains_def
    by (auto split: sum.splits option.splits if_splits)
  moreover have "set defaultExpectedStatusCodes = {200, 201, 202, 204}"
    by (simp add: defaultExpectedStatusCodes_def http_StatusOK_def http_StatusCreated_def
        http_StatusAccepted_def http_StatusNoContent_def)
  ultimately show ?thesis by simp
qed

theorem Pipe_Announce_expected_status_witness:
  "snd (Pipe_Announce example_World (fst (Pipe_Default example_Context))) = None
   \<and> snd (Pipe_Announce failing_endpoint_World (fst (Pipe_Default example_Context)))
       = Some (ErrorString ''request failed with status 500 Internal Server Error'')"
proof -
  let ?ctx = "fst (Pipe_Default example_Context)"
  let ?ok = "Pipe_Announce example_World ?ctx"
  let ?ko = "Pipe_Announce failing_endpoint_World ?ctx"
  have codes: "ExpectedStatusCodes (Webhook (Announce (Config ?ctx))) = [200, 201, 202, 204]"
    by (simp add: example_defs)
  have a1: "?ok = (Some (the (fst ?ok)), snd ?ok)"
    by (simp add: example_defs)
  have a2: "client_Do example_World (SkipTLSVerify (Webhook (Announce (Config ?ctx))))
              (the (fst ?ok)) = Inr \<lparr>Status = ''200 OK'', StatusCode = 200\<rparr>"
    by (simp add: example_World_def)
  have b1: "?ko = (Some (the (fst ?ko)), snd ?ko)"
    by (simp add: example_defs)
  have b2: "client_Do failing_endpoint_World (SkipTLSVerify (Webhook (Announce (Config ?ctx))))
              (the (fst ?ko))
            = Inr \<lparr>Status = ''500 Internal Server Error'', StatusCode = 500\<rparr>"
    by (simp add: failing_endpoint_World_def)
  show ?thesis
    using Pipe_Announce_expected_status [OF a1 a2] Pipe_Announce_expected_status [OF b1 b2]
    by (simp add: codes)
qed

text \<open>
  Claim C10 as stated. Read as a statement about the request \<open>Announce\<close> sends, "at
  most one Authorization header" does not hold: the loop of lines 117-120 adds every configured header after
  the one taken from the environment, a configured Authorization header included. With
  the basic-auth value set and an Authorization header configured, the request carries
  two.
\<close>

theorem Pipe_Announce_two_authorization_headers:
  "Pipe_Announce example_World custom_auth_Context = (Some custom_auth_Request, None)
   \<and> Header_Values example_World custom_auth_Request authorizationHeaderKey
       = [''Basic dXNlcjpwYXNz'', ''Bearer other'']
   \<and> \<not> length (Header_Values example_World custom_auth_Request authorizationHeaderKey) \<le> 1"
  by (simp add: example_defs Header_Values_def)

text \<open>
  Claim C10, as amended. From the two environment values \<open>Announce\<close> adds at most one
  Authorization header: the basic-auth value when it is not empty, otherwise the
  bearer token when that is not empty, otherwise none, so that basic auth takes
  precedence. The configured headers whose key canonicalises to Authorization are
  added after it, and the Authorization values of the request are these and no others.
\<close>

theorem Pipe_Announce_authorization:
  assumes "Pipe_Announce w ctx = (Some req, r)"
    and "env_ParseAs w = Inr cfg"
    and "CanonicalHeaderKey w contentTypeHeaderKey \<noteq> CanonicalHeaderKey w authorizationHeaderKey"
    and "CanonicalHeaderKey w userAgentHeaderKey \<noteq> CanonicalHeaderKey w authorizationHeaderKey"
  shows "Header_Values w req authorizationHeaderKey =
           (if BasicAuthHeader cfg \<noteq> '''' then [BasicAuthHeader cfg]
            else if BearerTokenHeader cfg \<noteq> '''' then [BearerTokenHeader cfg]
            else [])
           @ custom_auth_values w (Headers (Webhook (Announce (Config ctx))))"
proof -
  obtain cfg' endpointURL msg where
    cfg': "env_ParseAs w = Inr cfg'" and
    req: "req = add_custom_headers w (Headers (Webhook (Announce (Config ctx))))
                   (add_auth_header w cfg'
                      (Header_Add w
                         (Header_Add w
                            \<lparr>Method = http_MethodPost, URL = endpointURL,
                               Body = msg, Header = []\<rparr>
                            contentTypeHeaderKey
                            (ContentType (Webhook (Announce (Config ctx)))))
                         userAgentHeaderKey userAgentHeaderValue))"
    using Pipe_Announce_request [OF assms(1)] by blast
  from cfg' assms(2) have eq: "cfg' = cfg" by simp
  have "Header req =
          [(CanonicalHeaderKey w contentTypeHeaderKey,
            ContentType (Webhook (Announce (Config ctx)))),
           (CanonicalHeaderKey w userAgentHeaderKey, userAgentHeaderValue)]
          @ map (\<lambda>v. (CanonicalHeaderKey w authorizationHeaderKey, v)) (env_auth_values cfg)
          @ map (\<lambda>kv. (CanonicalHeaderKey w (fst kv), snd kv))
              (Headers (Webhook (Announce (Config ctx))))"
    unfolding req eq
    by (simp add: Header_add_custom_headers Header_add_auth_header Header_Add_def)
  then have "Header_Values w req authorizationHeaderKey =
               env_auth_values cfg
               @ custom_auth_values w (Headers (Webhook (Announce (Config ctx))))"
    using assms(3,4)
    by (simp add: Header_Values_def custom_auth_values_def filter_map comp_def)
  then show ?thesis by (simp add: env_auth_values_def)
qed

theorem Pipe_Announce_authorization_witness:
  "Header_Values example_World
     (the (fst (Pipe_Announce example_World example_Context))) authorizationHeaderKey
   = [''Basic dXNlcjpwYXNz'']"
proof -
  let ?a = "Pipe_Announce example_World example_Context"
  have a: "?a = (Some (the (fst ?a)), snd ?a)"
    by (simp add: example_defs)
  have b: "env_ParseAs example_World =
             Inr \<lparr>BasicAuthHeader = ''Basic dXNlcjpwYXNz'', BearerTokenHeader = ''Bearer t0k3n''\<rparr>"
    by (simp add: example_World_def)
  have c: "CanonicalHeaderKey example_World contentTypeHeaderKey
             \<noteq> CanonicalHeaderKey example_World authorizationHeaderKey"
    by (simp add: example_World_def contentTypeHeaderKey_def authorizationHeaderKey_def)
  have d: "CanonicalHeaderKey example_World userAgentHeaderKey
             \<noteq> CanonicalHeaderKey example_World authorizationHeaderKey"
    by (simp add: example_World_def userAgentHeaderKey_def authorizationHeaderKey_def)
  show ?thesis
    using Pipe_Announce_authorization [OF a b c d]
    by (simp add: custom_auth_values_def example_World_def example_Context_def context_of_def
        example_Webhook_def authorizationHeaderKey_def)
qed

end
